theory Spec2Isabelle
  imports Main
begin

section \<open>The Book API of \<open>server.js\<close>\<close>

text \<open>
  \<open>server.js\<close> keeps an array \<open>books\<close> in module state and registers five route
  handlers on it. Each handler is modelled as a function from the request's parts (the
  \<open>:id\<close> path segment, \<open>req.body\<close>) and the array before the request to the outcome of
  the handler and the array after it.
\<close>

subsection \<open>JavaScript values\<close>

text \<open>
  A JSON value as \<open>express.json()\<close> delivers it. The handlers never compute with the
  values of the four payload fields, so JSON numbers are kept at their integer values.
\<close>

datatype json =
    JNull
  | JBool bool
  | JNum int
  | JStr string
  | JArr "json list"
  | JObj "(string \<times> json) list"

text \<open>
  The result of \<open>parseInt\<close> and the value of an \<open>id\<close> property: \<open>NaN\<close> or an integer.
  (A JavaScript number is a double; integers below \<open>2^53\<close> in absolute value are exact,
  and \<open>books.length + 1\<close> stays far below that bound.)
\<close>

datatype number = NaN | Num int

text \<open>\<open>a === b\<close> on numbers: \<open>NaN\<close> is equal to nothing, itself included.\<close>

definition strictEq :: "number \<Rightarrow> number \<Rightarrow> bool" where
  "strictEq a b = (a \<noteq> NaN \<and> b \<noteq> NaN \<and> a = b)"

text \<open>
  A parsed request body is an object; reading a property that the object does not have
  gives \<open>undefined\<close>, which is \<open>None\<close> here. \<open>req.body\<close> itself is \<open>undefined\<close> (\<open>None\<close>)
  when the middleware has parsed nothing and leaves the property unset.
\<close>

type_synonym jsobject = "string \<rightharpoonup> json"

datatype js_error = TypeError

subsection \<open>\<open>parseInt\<close> with no radix argument\<close>

text \<open>
  The white space that \<open>parseInt\<close> skips, among the code units below 256: tab, line
  feed, vertical tab, form feed, carriage return, space and no-break space.
\<close>

definition isWhiteSpace :: "char \<Rightarrow> bool" where
  "isWhiteSpace c = (of_char c \<in> {9, 10, 11, 12, 13, 32, 160 :: nat})"

definition digitValue :: "char \<Rightarrow> nat option" where
  "digitValue c =
     (let n = (of_char c :: nat) in
      if 48 \<le> n \<and> n \<le> 57 then Some (n - 48)
      else if 97 \<le> n \<and> n \<le> 102 then Some (n - 87)
      else if 65 \<le> n \<and> n \<le> 70 then Some (n - 55)
      else None)"

definition digitOf :: "nat \<Rightarrow> char \<Rightarrow> nat option" where
  "digitOf R c =
     (case digitValue c of
        None \<Rightarrow> None
      | Some d \<Rightarrow> if d < R then Some d else None)"

text \<open>The value of the longest prefix of radix-\<open>R\<close> digits, most significant first.\<close>

fun digitsValue :: "nat \<Rightarrow> nat \<Rightarrow> string \<Rightarrow> nat" where
  "digitsValue R acc [] = acc"
| "digitsValue R acc (c # cs) =
     (case digitOf R c of
        None \<Rightarrow> acc
      | Some d \<Rightarrow> digitsValue R (acc * R + d) cs)"

text \<open>
  The steps of \<open>parseInt(string)\<close>: drop leading white space, read one sign, read a
  \<open>0x\<close> or \<open>0X\<close> prefix (radix 16, otherwise 10), then take the longest prefix of
  digits; no digit at all gives \<open>NaN\<close>.
\<close>

definition parseInt :: "string \<Rightarrow> number" where
  "parseInt s =
     (let S = dropWhile isWhiteSpace s;
          sign = (case S of [] \<Rightarrow> (1::int) | c # _ \<Rightarrow> if c = CHR ''-'' then - 1 else 1);
          S1 = (case S of [] \<Rightarrow> S
                | c # cs \<Rightarrow> if c = CHR ''+'' \<or> c = CHR ''-'' then cs else S);
          (R, S2) = (case S1 of
                       a # b # cs \<Rightarrow>
                         if a = CHR ''0'' \<and> (b = CHR ''x'' \<or> b = CHR ''X'')
                         then (16, cs) else (10, S1)
                     | _ \<Rightarrow> (10, S1))
      in case S2 of
           [] \<Rightarrow> NaN
         | c # _ \<Rightarrow>
             if digitOf R c = None then NaN
             else Num (sign * int (digitsValue R 0 S2)))"

subsection \<open>The collection\<close>

record book =
  book_id :: number
  title :: "json option"
  author :: "json option"
  genre :: "json option"
  copiesAvailable :: "json option"

text \<open>The initial value of \<open>books\<close> (lines 21 to 44).\<close>

definition books :: "book list" where
  "books =
     [\<lparr>book_id = Num 1, title = Some (JStr ''The Great Gatsby''),
       author = Some (JStr ''F. Scott Fitzgerald''), genre = Some (JStr ''Fiction''),
       copiesAvailable = Some (JNum 5)\<rparr>,
      \<lparr>book_id = Num 2, title = Some (JStr ''To Kill a Mockingbird''),
       author = Some (JStr ''Harper Lee''), genre = Some (JStr ''Fiction''),
       copiesAvailable = Some (JNum 3)\<rparr>,
      \<lparr>book_id = Num 3, title = Some (JStr ''1984''),
       author = Some (JStr ''George Orwell''), genre = Some (JStr ''Dystopian Fiction''),
       copiesAvailable = Some (JNum 7)\<rparr>]"

text \<open>
  \<open>Array.prototype.findIndex\<close>: the index of the first element that satisfies the
  predicate; \<open>None\<close> stands for the result \<open>-1\<close>.
\<close>

fun findIndex :: "('a \<Rightarrow> bool) \<Rightarrow> 'a list \<Rightarrow> nat option" where
  "findIndex P [] = None"
| "findIndex P (x # xs) = (if P x then Some 0 else map_option Suc (findIndex P xs))"

text \<open>
  \<open>xs.splice(i, 1)\<close>: the removed elements and the array that is left. An index at or
  past the end removes nothing, and element \<open>0\<close> of the empty result is \<open>undefined\<close>.
\<close>

definition splice1 :: "nat \<Rightarrow> 'a list \<Rightarrow> 'a list \<times> 'a list" where
  "splice1 i xs = (take 1 (drop i xs), take i xs @ drop (Suc i) xs)"

subsection \<open>Responses\<close>

datatype resbody =
    BookJson book
  | BooksJson "book list"
  | ErrorJson string
  | DeletedJson string "book option"

datatype response = Response (status: nat) (body: resbody)

text \<open>
  A handler either sends a response or throws; both leave an array behind.
\<close>

type_synonym outcome = "(js_error + response) \<times> book list"

subsection \<open>The route handlers\<close>

text \<open>\<open>GET /api/books\<close> (lines 66 to 69).\<close>

definition get_api_books :: "book list \<Rightarrow> outcome" where
  "get_api_books bs = (Inr (Response 200 (BooksJson bs)), bs)"

text \<open>\<open>GET /api/books/:id\<close> (lines 73 to 83).\<close>

definition get_api_books_id :: "string \<Rightarrow> book list \<Rightarrow> outcome" where
  "get_api_books_id seg bs =
     (let bookId = parseInt seg in
      case find (\<lambda>m. strictEq (book_id m) bookId) bs of
        Some b \<Rightarrow> (Inr (Response 200 (BookJson b)), bs)
      | None \<Rightarrow> (Inr (Response 404 (ErrorJson ''Book not found'')), bs))"

text \<open>
  \<open>POST /api/books\<close> (lines 86 to 104). Destructuring \<open>req.body\<close> throws a
  \<open>TypeError\<close> when it is \<open>undefined\<close>, before the array is touched.
\<close>

definition post_api_books :: "jsobject option \<Rightarrow> book list \<Rightarrow> outcome" where
  "post_api_books reqBody bs =
     (case reqBody of
        None \<Rightarrow> (Inl TypeError, bs)
      | Some b \<Rightarrow>
          (let newBook = \<lparr>book_id = Num (int (length bs) + 1),
                          title = b ''title'', author = b ''author'',
                          genre = b ''genre'', copiesAvailable = b ''copiesAvailable''\<rparr>
           in (Inr (Response 201 (BookJson newBook)), bs @ [newBook])))"

text \<open>\<open>PUT /api/books/:id\<close> (lines 107 to 129).\<close>

definition put_api_books_id :: "string \<Rightarrow> jsobject option \<Rightarrow> book list \<Rightarrow> outcome" where
  "put_api_books_id seg reqBody bs =
     (let bookId = parseInt seg in
      case reqBody of
        None \<Rightarrow> (Inl TypeError, bs)
      | Some b \<Rightarrow>
          (case findIndex (\<lambda>m. strictEq (book_id m) bookId) bs of
             None \<Rightarrow> (Inr (Response 404 (ErrorJson ''Book not found'')), bs)
           | Some bookIndex \<Rightarrow>
               (let bs' = bs[bookIndex := \<lparr>book_id = bookId,
                                title = b ''title'', author = b ''author'',
                                genre = b ''genre'',
                                copiesAvailable = b ''copiesAvailable''\<rparr>]
                in (Inr (Response 200 (BookJson (bs' ! bookIndex))), bs'))))"

text \<open>\<open>DELETE /api/books/:id\<close> (lines 132 to 147).\<close>

definition delete_api_books_id :: "string \<Rightarrow> book list \<Rightarrow> outcome" where
  "delete_api_books_id seg bs =
     (let bookId = parseInt seg in
      case findIndex (\<lambda>m. strictEq (book_id m) bookId) bs of
        None \<Rightarrow> (Inr (Response 404 (ErrorJson ''Book not found'')), bs)
      | Some bookIndex \<Rightarrow>
          (case splice1 bookIndex bs of
             (removed, bs') \<Rightarrow>
               (let deletedBook = (case removed of [] \<Rightarrow> None | d # _ \<Rightarrow> Some d)
                in (Inr (Response 200
                      (DeletedJson ''Book deleted successfully'' deletedBook)), bs'))))"

subsection \<open>Requests in sequence\<close>

datatype request =
    GetAll
  | GetOne string
  | Post "jsobject option"
  | Put string "jsobject option"
  | Delete string

fun handle :: "request \<Rightarrow> book list \<Rightarrow> outcome" where
  "handle GetAll bs = get_api_books bs"
| "handle (GetOne seg) bs = get_api_books_id seg bs"
| "handle (Post reqBody) bs = post_api_books reqBody bs"
| "handle (Put seg reqBody) bs = put_api_books_id seg reqBody bs"
| "handle (Delete seg) bs = delete_api_books_id seg bs"

text \<open>The array after a sequence of requests, served one after the other.\<close>

fun serve :: "request list \<Rightarrow> book list \<Rightarrow> book list" where
  "serve [] bs = bs"
| "serve (r # rs) bs = serve rs (snd (handle r bs))"

subsection \<open>Reset\<close>


section \<open>Properties\<close>

subsection \<open>Searching the array\<close>

lemma strictEq_Num [simp]: "strictEq a (Num n) = (a = Num n)"
  by (auto simp: strictEq_def)

lemma strictEq_NaN [simp]: "strictEq a NaN = False"
  by (simp add: strictEq_def)

lemma findIndex_None_iff: "findIndex P xs = None \<longleftrightarrow> (\<forall>x\<in>set xs. \<not> P x)"
  by (induction xs) auto

lemma findIndex_Some_first:
  "findIndex P xs = Some i \<Longrightarrow> i < length xs \<and> P (xs ! i) \<and> (\<forall>j<i. \<not> P (xs ! j))"
proof (induction xs arbitrary: i)
  case Nil
  then show ?case by simp
next
  case (Cons x xs)
  show ?case
  proof (cases "P x")
    case True
    with Cons.prems show ?thesis by simp
  next
    case False
    with Cons.prems obtain k where k: "findIndex P xs = Some k" and i: "i = Suc k"
      by auto
    from Cons.IH [OF k] have "k < length xs" "P (xs ! k)" "\<forall>j<k. \<not> P (xs ! j)"
      by simp_all
    with False i show ?thesis
      by (auto simp: less_Suc_eq_0_disj)
  qed
qed

lemma first_match_findIndex:
  assumes "i < length xs" and "P (xs ! i)" and "\<forall>j<i. \<not> P (xs ! j)"
  shows "findIndex P xs = Some i"
proof -
  from assms(1,2) have "\<not> (\<forall>x\<in>set xs. \<not> P x)"
    using nth_mem by blast
  then obtain k where k: "findIndex P xs = Some k"
    by (auto simp: findIndex_None_iff [symmetric])
  from findIndex_Some_first [OF k]
  have "k < length xs" "P (xs ! k)" "\<forall>j<k. \<not> P (xs ! j)" by simp_all
  with assms have "k = i"
    by (meson linorder_neqE_nat)
  with k show ?thesis by simp
qed

lemma find_findIndex: "find P xs = map_option (\<lambda>i. xs ! i) (findIndex P xs)"
  by (induction xs) (auto simp: option.map_comp comp_def)

text \<open>The equations that evaluate \<open>parseInt\<close> on a literal.\<close>

lemmas parseInt_eval = parseInt_def isWhiteSpace_def digitOf_def digitValue_def Let_def

subsection \<open>Reading one book\<close>

text \<open>
  C6. When the path segment parses to the integer \<open>n\<close>, \<open>GET /api/books/:id\<close> answers
  200 with the first book of the array whose id is \<open>n\<close>, answers 404 with
  \<open>{error: "Book not found"}\<close> when no book has that id, and leaves the array as it was.
\<close>

theorem get_by_id_first_match:
  assumes "parseInt seg = Num n"
  shows "(\<forall>i. i < length bs \<and> book_id (bs ! i) = Num n \<and> (\<forall>j<i. book_id (bs ! j) \<noteq> Num n) \<longrightarrow>
            get_api_books_id seg bs = (Inr (Response 200 (BookJson (bs ! i))), bs))
       \<and> ((\<forall>b\<in>set bs. book_id b \<noteq> Num n) \<longrightarrow>
            get_api_books_id seg bs = (Inr (Response 404 (ErrorJson ''Book not found'')), bs))
       \<and> snd (get_api_books_id seg bs) = bs"
proof (intro conjI allI impI)
  fix i
  assume "i < length bs \<and> book_id (bs ! i) = Num n \<and> (\<forall>j<i. book_id (bs ! j) \<noteq> Num n)"
  then have "findIndex (\<lambda>m. strictEq (book_id m) (Num n)) bs = Some i"
    by (intro first_match_findIndex) simp_all
  with assms show "get_api_books_id seg bs = (Inr (Response 200 (BookJson (bs ! i))), bs)"
    by (simp add: get_api_books_id_def find_findIndex)
next
  assume "\<forall>b\<in>set bs. book_id b \<noteq> Num n"
  then have "findIndex (\<lambda>m. strictEq (book_id m) (Num n)) bs = None"
    by (simp add: findIndex_None_iff)
  with assms
  show "get_api_books_id seg bs = (Inr (Response 404 (ErrorJson ''Book not found'')), bs)"
    by (simp add: get_api_books_id_def find_findIndex)
next
  show "snd (get_api_books_id seg bs) = bs"
    by (simp add: get_api_books_id_def split: option.split)
qed

theorem get_by_id_first_match_witness:
  "parseInt ''2'' = Num 2
   \<and> get_api_books_id ''2'' books = (Inr (Response 200 (BookJson (books ! 1))), books)
   \<and> parseInt ''999'' = Num 999
   \<and> get_api_books_id ''999'' books =
       (Inr (Response 404 (ErrorJson ''Book not found'')), books)"
proof -
  have p2: "parseInt ''2'' = Num 2"
    by (simp add: parseInt_eval)
  have p999: "parseInt ''999'' = Num 999"
    by (simp add: parseInt_eval)
  have first: "1 < length books \<and> book_id (books ! 1) = Num 2
               \<and> (\<forall>j<1. book_id (books ! j) \<noteq> Num 2)"
    by (simp add: books_def)
  have none: "\<forall>b\<in>set books. book_id b \<noteq> Num 999"
    by (simp add: books_def)
  from get_by_id_first_match [OF p2, of books] first
  have "get_api_books_id ''2'' books = (Inr (Response 200 (BookJson (books ! 1))), books)"
    by blast
  moreover from get_by_id_first_match [OF p999, of books] none
  have "get_api_books_id ''999'' books =
          (Inr (Response 404 (ErrorJson ''Book not found'')), books)"
    by blast
  ultimately show ?thesis using p2 p999 by blast
qed

subsection \<open>Segments that are not numbers\<close>



subsection \<open>The handlers of \<open>PUT\<close> and \<open>DELETE\<close> at the first match\<close>

lemma put_matched:
  assumes "i < length bs" and "strictEq (book_id (bs ! i)) (parseInt seg)"
    and "\<forall>j<i. \<not> strictEq (book_id (bs ! j)) (parseInt seg)"
  shows "put_api_books_id seg (Some b) bs =
     (Inr (Response 200 (BookJson \<lparr>book_id = book_id (bs ! i),
             title = b ''title'', author = b ''author'', genre = b ''genre'',
             copiesAvailable = b ''copiesAvailable''\<rparr>)),
      bs[i := \<lparr>book_id = book_id (bs ! i),
             title = b ''title'', author = b ''author'', genre = b ''genre'',
             copiesAvailable = b ''copiesAvailable''\<rparr>])"
proof -
  have idx: "findIndex (\<lambda>m. strictEq (book_id m) (parseInt seg)) bs = Some i"
    using assms by (intro first_match_findIndex) simp_all
  from assms(2) have same: "parseInt seg = book_id (bs ! i)"
    by (simp add: strictEq_def)
  from idx assms(1) show ?thesis
    by (simp add: put_api_books_id_def Let_def same [symmetric])
qed

lemma put_unmatched:
  assumes "\<forall>m\<in>set bs. \<not> strictEq (book_id m) (parseInt seg)"
  shows "put_api_books_id seg (Some b) bs =
           (Inr (Response 404 (ErrorJson ''Book not found'')), bs)"
proof -
  from assms have "findIndex (\<lambda>m. strictEq (book_id m) (parseInt seg)) bs = None"
    by (simp add: findIndex_None_iff)
  then show ?thesis
    by (simp add: put_api_books_id_def)
qed

lemma put_no_body: "put_api_books_id seg None bs = (Inl TypeError, bs)"
  by (simp add: put_api_books_id_def)

lemma delete_matched:
  assumes "i < length bs" and "strictEq (book_id (bs ! i)) (parseInt seg)"
    and "\<forall>j<i. \<not> strictEq (book_id (bs ! j)) (parseInt seg)"
  shows "delete_api_books_id seg bs =
     (Inr (Response 200 (DeletedJson ''Book deleted successfully'' (Some (bs ! i)))),
      take i bs @ drop (Suc i) bs)"
proof -
  have idx: "findIndex (\<lambda>m. strictEq (book_id m) (parseInt seg)) bs = Some i"
    using assms by (intro first_match_findIndex) simp_all
  from assms(1) have "take 1 (drop i bs) = [bs ! i]"
    by (simp add: Cons_nth_drop_Suc [symmetric])
  with idx show ?thesis
    by (simp add: delete_api_books_id_def splice1_def)
qed

lemma delete_unmatched:
  assumes "\<forall>m\<in>set bs. \<not> strictEq (book_id m) (parseInt seg)"
  shows "delete_api_books_id seg bs =
           (Inr (Response 404 (ErrorJson ''Book not found'')), bs)"
proof -
  from assms have "findIndex (\<lambda>m. strictEq (book_id m) (parseInt seg)) bs = None"
    by (simp add: findIndex_None_iff)
  then show ?thesis
    by (simp add: delete_api_books_id_def)
qed

lemma first_match_exists:
  assumes "\<not> (\<forall>x\<in>set xs. \<not> P x)"
  obtains i where "i < length xs" and "P (xs ! i)" and "\<forall>j<i. \<not> P (xs ! j)"
proof -
  from assms obtain k where "findIndex P xs = Some k"
    by (auto simp: findIndex_None_iff [symmetric])
  from findIndex_Some_first [OF this] that show thesis
    by blast
qed

lemma map_update_same: "i < length xs \<Longrightarrow> (map f xs)[i := f (xs ! i)] = map f xs"
  by (simp add: list_eq_iff_nth_eq nth_list_update)

lemma put_ids: "map book_id (snd (put_api_books_id seg reqBody bs)) = map book_id bs"
proof (cases reqBody)
  case None
  then show ?thesis by (simp add: put_no_body)
next
  case (Some b)
  show ?thesis
  proof (cases "findIndex (\<lambda>m. strictEq (book_id m) (parseInt seg)) bs")
    case None
    with Some show ?thesis by (simp add: put_api_books_id_def)
  next
    case (Some i)
    from findIndex_Some_first [OF Some]
    have i: "i < length bs" and eq: "strictEq (book_id (bs ! i)) (parseInt seg)"
      by simp_all
    from eq have "parseInt seg = book_id (bs ! i)"
      by (simp add: strictEq_def)
    with Some \<open>reqBody = Some b\<close> i show ?thesis
      by (simp add: put_api_books_id_def Let_def map_update map_update_same)
  qed
qed

lemma put_others:
  assumes "i < length bs" and "strictEq (book_id (bs ! i)) (parseInt seg)"
    and "\<forall>j<i. \<not> strictEq (book_id (bs ! j)) (parseInt seg)"
    and "k \<noteq> i"
  shows "snd (put_api_books_id seg reqBody bs) ! k = bs ! k"
proof (cases reqBody)
  case None
  then show ?thesis by (simp add: put_no_body)
next
  case (Some b)
  with put_matched [OF assms(1-3), of b] assms(4) show ?thesis
    by simp
qed

subsection \<open>Creating a book\<close>

text \<open>
  C3. For every parsed payload (the non-empty ones included),
  \<open>POST /api/books\<close> builds a record whose id is the length of the array plus one and
  whose four fields are the payload's \<open>title\<close>, \<open>author\<close>, \<open>genre\<close> and
  \<open>copiesAvailable\<close> (\<open>undefined\<close> where the payload has none), appends it at the end
  of the array, so that the length grows by one and the earlier records stay as they
  were, and answers 201 with the new record; a listing afterwards shows the longer array.
\<close>

theorem create_appends_record:
  "post_api_books (Some b) bs =
     (Inr (Response 201 (BookJson \<lparr>book_id = Num (int (length bs) + 1),
             title = b ''title'', author = b ''author'', genre = b ''genre'',
             copiesAvailable = b ''copiesAvailable''\<rparr>)),
      bs @ [\<lparr>book_id = Num (int (length bs) + 1),
             title = b ''title'', author = b ''author'', genre = b ''genre'',
             copiesAvailable = b ''copiesAvailable''\<rparr>])
   \<and> length (snd (post_api_books (Some b) bs)) = length bs + 1
   \<and> take (length bs) (snd (post_api_books (Some b) bs)) = bs
   \<and> fst (get_api_books (snd (post_api_books (Some b) bs))) =
       Inr (Response 200 (BooksJson (bs @ [\<lparr>book_id = Num (int (length bs) + 1),
             title = b ''title'', author = b ''author'', genre = b ''genre'',
             copiesAvailable = b ''copiesAvailable''\<rparr>])))"
  by (simp add: post_api_books_def get_api_books_def Let_def)

subsection \<open>Replacing a book\<close>

text \<open>
  C4. When the path segment parses to the integer \<open>n\<close> and a payload is given,
  \<open>PUT /api/books/:id\<close> overwrites the first record whose id is \<open>n\<close> with a record that
  keeps the id \<open>n\<close> and takes its four fields from the payload alone (a field that the
  payload lacks becomes \<open>undefined\<close>, whatever was stored), and answers 200 with that
  record. When no record has the id, it answers 404 with \<open>{error: "Book not found"}\<close>
  and the array stays as it was.
\<close>

theorem replace_first_match:
  assumes "parseInt seg = Num n"
  shows "(\<forall>i. i < length bs \<and> book_id (bs ! i) = Num n \<and> (\<forall>j<i. book_id (bs ! j) \<noteq> Num n) \<longrightarrow>
            put_api_books_id seg (Some b) bs =
              (Inr (Response 200 (BookJson \<lparr>book_id = Num n,
                      title = b ''title'', author = b ''author'', genre = b ''genre'',
                      copiesAvailable = b ''copiesAvailable''\<rparr>)),
               bs[i := \<lparr>book_id = Num n,
                      title = b ''title'', author = b ''author'', genre = b ''genre'',
                      copiesAvailable = b ''copiesAvailable''\<rparr>]))
       \<and> ((\<forall>m\<in>set bs. book_id m \<noteq> Num n) \<longrightarrow>
            put_api_books_id seg (Some b) bs =
              (Inr (Response 404 (ErrorJson ''Book not found'')), bs))"
proof (intro conjI allI impI)
  fix i
  assume h: "i < length bs \<and> book_id (bs ! i) = Num n \<and> (\<forall>j<i. book_id (bs ! j) \<noteq> Num n)"
  with assms have "put_api_books_id seg (Some b) bs =
     (Inr (Response 200 (BookJson \<lparr>book_id = book_id (bs ! i),
             title = b ''title'', author = b ''author'', genre = b ''genre'',
             copiesAvailable = b ''copiesAvailable''\<rparr>)),
      bs[i := \<lparr>book_id = book_id (bs ! i),
             title = b ''title'', author = b ''author'', genre = b ''genre'',
             copiesAvailable = b ''copiesAvailable''\<rparr>])"
    by (intro put_matched) simp_all
  with h show "put_api_books_id seg (Some b) bs =
              (Inr (Response 200 (BookJson \<lparr>book_id = Num n,
                      title = b ''title'', author = b ''author'', genre = b ''genre'',
                      copiesAvailable = b ''copiesAvailable''\<rparr>)),
               bs[i := \<lparr>book_id = Num n,
                      title = b ''title'', author = b ''author'', genre = b ''genre'',
                      copiesAvailable = b ''copiesAvailable''\<rparr>])"
    by simp
next
  assume "\<forall>m\<in>set bs. book_id m \<noteq> Num n"
  with assms show "put_api_books_id seg (Some b) bs =
              (Inr (Response 404 (ErrorJson ''Book not found'')), bs)"
    by (intro put_unmatched) simp
qed

theorem replace_first_match_witness:
  "parseInt ''1'' = Num 1
   \<and> put_api_books_id ''1'' (Some [''title'' \<mapsto> JStr ''Only Title'']) books =
       (Inr (Response 200 (BookJson \<lparr>book_id = Num 1, title = Some (JStr ''Only Title''),
               author = None, genre = None, copiesAvailable = None\<rparr>)),
        books[0 := \<lparr>book_id = Num 1, title = Some (JStr ''Only Title''),
               author = None, genre = None, copiesAvailable = None\<rparr>])
   \<and> parseInt ''999'' = Num 999
   \<and> put_api_books_id ''999'' (Some [''title'' \<mapsto> JStr ''x'']) books =
       (Inr (Response 404 (ErrorJson ''Book not found'')), books)"
proof -
  have p1: "parseInt ''1'' = Num 1"
    by (simp add: parseInt_eval)
  have p999: "parseInt ''999'' = Num 999"
    by (simp add: parseInt_eval)
  have first: "0 < length books \<and> book_id (books ! 0) = Num 1
               \<and> (\<forall>j<0. book_id (books ! j) \<noteq> Num 1)"
    by (simp add: books_def)
  have none: "\<forall>m\<in>set books. book_id m \<noteq> Num 999"
    by (simp add: books_def)
  from replace_first_match [OF p1, of books "[''title'' \<mapsto> JStr ''Only Title'']"] first
  have "put_api_books_id ''1'' (Some [''title'' \<mapsto> JStr ''Only Title'']) books =
       (Inr (Response 200 (BookJson \<lparr>book_id = Num 1,
               title = [''title'' \<mapsto> JStr ''Only Title''] ''title'',
               author = [''title'' \<mapsto> JStr ''Only Title''] ''author'',
               genre = [''title'' \<mapsto> JStr ''Only Title''] ''genre'',
               copiesAvailable = [''title'' \<mapsto> JStr ''Only Title''] ''copiesAvailable''\<rparr>)),
        books[0 := \<lparr>book_id = Num 1,
               title = [''title'' \<mapsto> JStr ''Only Title''] ''title'',
               author = [''title'' \<mapsto> JStr ''Only Title''] ''author'',
               genre = [''title'' \<mapsto> JStr ''Only Title''] ''genre'',
               copiesAvailable = [''title'' \<mapsto> JStr ''Only Title''] ''copiesAvailable''\<rparr>])"
    by blast
  then have a: "put_api_books_id ''1'' (Some [''title'' \<mapsto> JStr ''Only Title'']) books =
       (Inr (Response 200 (BookJson \<lparr>book_id = Num 1, title = Some (JStr ''Only Title''),
               author = None, genre = None, copiesAvailable = None\<rparr>)),
        books[0 := \<lparr>book_id = Num 1, title = Some (JStr ''Only Title''),
               author = None, genre = None, copiesAvailable = None\<rparr>])"
    by simp
  from replace_first_match [OF p999, of books "[''title'' \<mapsto> JStr ''x'']"] none
  have "put_api_books_id ''999'' (Some [''title'' \<mapsto> JStr ''x'']) books =
       (Inr (Response 404 (ErrorJson ''Book not found'')), books)"
    by blast
  with a p1 p999 show ?thesis by blast
qed

subsection \<open>What a request leaves alone\<close>

text \<open>
  C9. \<open>PUT\<close> never changes the ids or the length of the array, and on a match at
  position \<open>i\<close> it changes no other position; \<open>DELETE\<close> on a match at position \<open>i\<close> leaves
  the records before \<open>i\<close> followed by the records after \<open>i\<close>, in their order; without a
  match both leave the array as it was. \<open>POST\<close> keeps every earlier record in place and
  the two \<open>GET\<close> handlers change nothing, so no request changes the id of a stored record.
\<close>

theorem mutations_preserve_other_records:
  "map book_id (snd (put_api_books_id seg reqBody bs)) = map book_id bs
   \<and> length (snd (put_api_books_id seg reqBody bs)) = length bs
   \<and> (\<forall>i. i < length bs \<and> strictEq (book_id (bs ! i)) (parseInt seg)
            \<and> (\<forall>j<i. \<not> strictEq (book_id (bs ! j)) (parseInt seg)) \<longrightarrow>
          (\<forall>k. k \<noteq> i \<longrightarrow> snd (put_api_books_id seg reqBody bs) ! k = bs ! k)
          \<and> snd (delete_api_books_id seg bs) = take i bs @ drop (Suc i) bs)
   \<and> ((\<forall>m\<in>set bs. \<not> strictEq (book_id m) (parseInt seg)) \<longrightarrow>
          snd (put_api_books_id seg reqBody bs) = bs
          \<and> snd (delete_api_books_id seg bs) = bs)
   \<and> take (length bs) (snd (post_api_books reqBody bs)) = bs
   \<and> snd (get_api_books_id seg bs) = bs
   \<and> snd (get_api_books bs) = bs"
proof (intro conjI allI impI)
  show "map book_id (snd (put_api_books_id seg reqBody bs)) = map book_id bs"
    by (rule put_ids)
  from arg_cong [OF put_ids, of length seg reqBody bs]
  show "length (snd (put_api_books_id seg reqBody bs)) = length bs"
    by simp
next
  fix i k
  assume "i < length bs \<and> strictEq (book_id (bs ! i)) (parseInt seg)
            \<and> (\<forall>j<i. \<not> strictEq (book_id (bs ! j)) (parseInt seg))"
    and "k \<noteq> i"
  then show "snd (put_api_books_id seg reqBody bs) ! k = bs ! k"
    by (intro put_others) simp_all
next
  fix i
  assume "i < length bs \<and> strictEq (book_id (bs ! i)) (parseInt seg)
            \<and> (\<forall>j<i. \<not> strictEq (book_id (bs ! j)) (parseInt seg))"
  then have "delete_api_books_id seg bs =
     (Inr (Response 200 (DeletedJson ''Book deleted successfully'' (Some (bs ! i)))),
      take i bs @ drop (Suc i) bs)"
    by (intro delete_matched) simp_all
  then show "snd (delete_api_books_id seg bs) = take i bs @ drop (Suc i) bs"
    by simp
next
  assume none: "\<forall>m\<in>set bs. \<not> strictEq (book_id m) (parseInt seg)"
  show "snd (put_api_books_id seg reqBody bs) = bs"
  proof (cases reqBody)
    case None
    then show ?thesis by (simp add: put_no_body)
  next
    case (Some b)
    with put_unmatched [OF none, of b] show ?thesis by simp
  qed
  from delete_unmatched [OF none] show "snd (delete_api_books_id seg bs) = bs"
    by simp
next
  show "take (length bs) (snd (post_api_books reqBody bs)) = bs"
    by (simp add: post_api_books_def Let_def split: option.split)
  show "snd (get_api_books_id seg bs) = bs"
    by (simp add: get_api_books_id_def split: option.split)
  show "snd (get_api_books bs) = bs"
    by (simp add: get_api_books_def)
qed

theorem mutations_preserve_other_records_witness:
  "snd (put_api_books_id ''2'' (Some [''title'' \<mapsto> JStr ''Updated Title'']) books) ! 0 = books ! 0
   \<and> snd (put_api_books_id ''2'' (Some [''title'' \<mapsto> JStr ''Updated Title'']) books) ! 2 = books ! 2
   \<and> snd (delete_api_books_id ''2'' books) = [books ! 0, books ! 2]
   \<and> snd (put_api_books_id ''999'' (Some [''title'' \<mapsto> JStr ''x'']) books) = books
   \<and> snd (delete_api_books_id ''999'' books) = books"
proof -
  have first: "1 < length books \<and> strictEq (book_id (books ! 1)) (parseInt ''2'')
               \<and> (\<forall>j<1. \<not> strictEq (book_id (books ! j)) (parseInt ''2''))"
    by (simp add: books_def parseInt_eval)
  have none: "\<forall>m\<in>set books. \<not> strictEq (book_id m) (parseInt ''999'')"
    by (simp add: books_def parseInt_eval)
  note a = mutations_preserve_other_records
    [of "''2''" "Some [''title'' \<mapsto> JStr ''Updated Title'']" books]
  note b = mutations_preserve_other_records
    [of "''999''" "Some [''title'' \<mapsto> JStr ''x'']" books]
  from a first
  have "(\<forall>k. k \<noteq> 1 \<longrightarrow>
           snd (put_api_books_id ''2'' (Some [''title'' \<mapsto> JStr ''Updated Title'']) books) ! k
             = books ! k)"
    and del: "snd (delete_api_books_id ''2'' books) = take 1 books @ drop (Suc 1) books"
    by blast+
  then have p0: "snd (put_api_books_id ''2'' (Some [''title'' \<mapsto> JStr ''Updated Title'']) books) ! 0
                  = books ! 0"
    and p2: "snd (put_api_books_id ''2'' (Some [''title'' \<mapsto> JStr ''Updated Title'']) books) ! 2
                  = books ! 2"
    by simp_all
  have "take 1 books @ drop (Suc 1) books = [books ! 0, books ! 2]"
    by (simp add: books_def)
  with del have d: "snd (delete_api_books_id ''2'' books) = [books ! 0, books ! 2]"
    by simp
  from b none
  have "snd (put_api_books_id ''999'' (Some [''title'' \<mapsto> JStr ''x'']) books) = books
        \<and> snd (delete_api_books_id ''999'' books) = books"
    by blast
  with p0 p2 d show ?thesis by blast
qed

subsection \<open>A request with no body\<close>

text \<open>The handler of \<open>POST\<close> has no branch that answers 400.\<close>

lemma post_never_bad_request:
  "fst (post_api_books reqBody bs) \<noteq> Inr (Response 400 bd)"
  by (simp add: post_api_books_def Let_def split: option.split)

text \<open>
  C2. On the initial array, \<open>POST /api/books\<close> with the empty object as body answers 201
  and appends a record with id 4 and no other field; with \<open>req.body\<close> undefined the
  handler throws a \<open>TypeError\<close> and the array stays as it was. Neither is the answer
  400 with \<open>{error: "Request body required"}\<close> that the test file expects.
\<close>

theorem post_without_body_not_rejected:
  "post_api_books (Some Map.empty) books =
     (Inr (Response 201 (BookJson \<lparr>book_id = Num 4, title = None, author = None,
             genre = None, copiesAvailable = None\<rparr>)),
      books @ [\<lparr>book_id = Num 4, title = None, author = None,
             genre = None, copiesAvailable = None\<rparr>])
   \<and> post_api_books None books = (Inl TypeError, books)"
  by (simp add: post_api_books_def Let_def books_def)

subsection \<open>Ids after a deletion\<close>

text \<open>
  As long as no \<open>DELETE\<close> is served, the ids of the array are \<open>1, 2, 3, \<dots>\<close> in order, and
  so pairwise distinct.
\<close>

lemma handle_keeps_counting:
  assumes "\<forall>seg. r \<noteq> Delete seg"
    and "map book_id bs = map (\<lambda>k. Num (int k + 1)) [0..<length bs]"
  shows "map book_id (snd (handle r bs)) =
           map (\<lambda>k. Num (int k + 1)) [0..<length (snd (handle r bs))]"
proof (cases r)
  case GetAll
  with assms(2) show ?thesis by (simp add: get_api_books_def)
next
  case (GetOne seg)
  with assms(2) show ?thesis by (simp add: get_api_books_id_def split: option.split)
next
  case (Post reqBody)
  with assms(2) show ?thesis
    by (cases reqBody) (simp_all add: post_api_books_def Let_def)
next
  case (Put seg reqBody)
  from arg_cong [OF put_ids, of length seg reqBody bs]
  have "length (snd (put_api_books_id seg reqBody bs)) = length bs"
    by simp
  with Put assms(2) show ?thesis by (simp add: put_ids)
next
  case (Delete seg)
  with assms(1) show ?thesis by simp
qed

lemma serve_keeps_counting:
  assumes "\<forall>seg. Delete seg \<notin> set rs"
    and "map book_id bs = map (\<lambda>k. Num (int k + 1)) [0..<length bs]"
  shows "map book_id (serve rs bs) = map (\<lambda>k. Num (int k + 1)) [0..<length (serve rs bs)]"
  using assms
proof (induction rs arbitrary: bs)
  case Nil
  then show ?case by simp
next
  case (Cons r rs)
  from Cons.prems(1) have r: "\<forall>seg. r \<noteq> Delete seg" and rs: "\<forall>seg. Delete seg \<notin> set rs"
    by auto
  from handle_keeps_counting [OF r Cons.prems(2)] Cons.IH [OF rs]
  show ?case by simp
qed

lemma ids_distinct_without_delete:
  assumes "\<forall>seg. Delete seg \<notin> set rs"
  shows "distinct (map book_id (serve rs books))"
proof -
  have "map book_id books = map (\<lambda>k. Num (int k + 1)) [0..<length books]"
    by (simp add: books_def upt_rec)
  from serve_keeps_counting [OF assms this]
  have "map book_id (serve rs books) =
          map (\<lambda>k. Num (int k + 1)) [0..<length (serve rs books)]" .
  moreover have "distinct (map (\<lambda>k. Num (int k + 1)) [0..<length (serve rs books)])"
    by (simp add: distinct_map inj_on_def)
  ultimately show ?thesis by simp
qed

text \<open>The array after \<open>DELETE /api/books/2\<close> and one \<open>POST\<close>, from the initial array.\<close>

lemma delete_2_then_post:
  "serve [Delete ''2'', Post (Some [''title'' \<mapsto> JStr ''New Book''])] books =
     [\<lparr>book_id = Num 1, title = Some (JStr ''The Great Gatsby''),
       author = Some (JStr ''F. Scott Fitzgerald''), genre = Some (JStr ''Fiction''),
       copiesAvailable = Some (JNum 5)\<rparr>,
      \<lparr>book_id = Num 3, title = Some (JStr ''1984''),
       author = Some (JStr ''George Orwell''), genre = Some (JStr ''Dystopian Fiction''),
       copiesAvailable = Some (JNum 7)\<rparr>,
      \<lparr>book_id = Num 3, title = Some (JStr ''New Book''),
       author = None, genre = None, copiesAvailable = None\<rparr>]"
  by (simp add: books_def delete_api_books_id_def post_api_books_def splice1_def
      parseInt_eval)

text \<open>
  C1. From the initial array, \<open>DELETE /api/books/2\<close> followed by a \<open>POST\<close> leaves the ids
  \<open>1, 3, 3\<close>: the new record gets the length plus one, which is the id of a record
  that is still there, and the ids are no longer pairwise distinct.
\<close>

theorem create_after_delete_repeats_id:
  "map book_id (serve [Delete ''2'', Post (Some [''title'' \<mapsto> JStr ''New Book''])] books)
     = [Num 1, Num 3, Num 3]
   \<and> \<not> distinct
        (map book_id (serve [Delete ''2'', Post (Some [''title'' \<mapsto> JStr ''New Book''])] books))"
  unfolding delete_2_then_post by simp

subsection \<open>Deleting twice\<close>

text \<open>
  When the id occurs once in the array, the second \<open>DELETE\<close> of it answers 404.
\<close>

lemma delete_twice_not_found:
  assumes "i < length bs" and "book_id (bs ! i) = Num n" and "parseInt seg = Num n"
    and "\<forall>j<length bs. j \<noteq> i \<longrightarrow> book_id (bs ! j) \<noteq> Num n"
  shows "delete_api_books_id seg (snd (delete_api_books_id seg bs)) =
           (Inr (Response 404 (ErrorJson ''Book not found'')), take i bs @ drop (Suc i) bs)"
proof -
  from assms have "delete_api_books_id seg bs =
     (Inr (Response 200 (DeletedJson ''Book deleted successfully'' (Some (bs ! i)))),
      take i bs @ drop (Suc i) bs)"
    by (intro delete_matched) simp_all
  then have after: "snd (delete_api_books_id seg bs) = take i bs @ drop (Suc i) bs"
    by simp
  have before: "book_id m \<noteq> Num n" if "m \<in> set (take i bs)" for m
  proof -
    from that obtain j where "j < length (take i bs)" and "take i bs ! j = m"
      by (auto simp: in_set_conv_nth)
    then have "j < length bs" "j \<noteq> i" "m = bs ! j"
      by simp_all
    with assms(4) show ?thesis by simp
  qed
  have behind: "book_id m \<noteq> Num n" if "m \<in> set (drop (Suc i) bs)" for m
  proof -
    from that obtain j where "j < length (drop (Suc i) bs)" and "drop (Suc i) bs ! j = m"
      by (auto simp: in_set_conv_nth)
    then have "Suc i + j < length bs" "Suc i + j \<noteq> i" "m = bs ! (Suc i + j)"
      by simp_all
    with assms(4) show ?thesis by blast
  qed
  from before behind assms(3)
  have "\<forall>m\<in>set (take i bs @ drop (Suc i) bs). \<not> strictEq (book_id m) (parseInt seg)"
    by auto
  from delete_unmatched [OF this] after show ?thesis
    by simp
qed

text \<open>
  C5. In the array with the ids \<open>1, 3, 3\<close> (reached by \<open>DELETE /api/books/2\<close> and a
  \<open>POST\<close>), \<open>DELETE /api/books/3\<close> answers 200 with the record of "1984", and the
  \<open>DELETE /api/books/3\<close> that follows at once answers 200 again, with the record that the
  \<open>POST\<close> created, where a 404 is expected.
\<close>

theorem second_delete_of_repeated_id_succeeds:
  "fst (delete_api_books_id ''3''
         (serve [Delete ''2'', Post (Some [''title'' \<mapsto> JStr ''New Book''])] books)) =
     Inr (Response 200 (DeletedJson ''Book deleted successfully''
       (Some \<lparr>book_id = Num 3, title = Some (JStr ''1984''),
          author = Some (JStr ''George Orwell''), genre = Some (JStr ''Dystopian Fiction''),
          copiesAvailable = Some (JNum 7)\<rparr>)))
   \<and> fst (delete_api_books_id ''3''
         (serve [Delete ''2'', Post (Some [''title'' \<mapsto> JStr ''New Book'']), Delete ''3'']
            books)) =
     Inr (Response 200 (DeletedJson ''Book deleted successfully''
       (Some \<lparr>book_id = Num 3, title = Some (JStr ''New Book''),
          author = None, genre = None, copiesAvailable = None\<rparr>)))"
  by (simp add: books_def delete_api_books_id_def post_api_books_def splice1_def
      parseInt_eval)

subsection \<open>Restoring the initial array\<close>


subsection \<open>Segments with leading digits\<close>









end
